theory Spec2Isabelle
  imports Complex_Main "HOL-Library.Sublist" "HOL-Library.Char_ord" "HOL-Library.List_Lexorder"
begin

section \<open>Data model\<close>

text \<open>
  A calendar date as Python's \<open>datetime.date\<close>: year, month, day, compared
  chronologically (lexicographically on the three fields).
\<close>

datatype date = MkDate (d_year: int) (d_month: int) (d_day: int)

fun date_le :: "date \<Rightarrow> date \<Rightarrow> bool" where
  "date_le (MkDate y1 m1 d1) (MkDate y2 m2 d2) =
     (y1 < y2 \<or> (y1 = y2 \<and> (m1 < m2 \<or> (m1 = m2 \<and> d1 \<le> d2))))"

text \<open>A parsed \<open>Start_Time\<close>: the date and the time of day.\<close>

datatype timestamp = Timestamp (ts_date: date) (ts_hour: int) (ts_minute: int) (ts_second: int)

text \<open>
  One line of the file as \<open>pd.read_csv\<close> delivers it. A missing cell is \<open>None\<close>
  (NaN in the data frame); \<open>Start_Time\<close> is still text.
\<close>

record csv_row =
  csv_Start_Time :: "string option"
  csv_State :: "string option"
  csv_City :: "string option"
  csv_Weather_Condition :: "string option"
  csv_Severity :: "int option"
  csv_Start_Lat :: "rat option"
  csv_Start_Lng :: "rat option"
  csv_Visibility :: "rat option"
  csv_Temperature :: "rat option"
  csv_Wind_Speed :: "rat option"

text \<open>
  One row of the data frame \<open>df\<close> after \<open>load_data\<close>: the columns of the file, with
  \<open>Start_Time\<close> parsed (\<open>None\<close> is NaT), and the four derived columns \<open>Date\<close>,
  \<open>Hour\<close>, \<open>Month\<close>, \<open>Day\<close> (\<open>None\<close> is NaT or NaN). \<open>Visibility\<close>,
  \<open>Temperature\<close> and \<open>Wind_Speed\<close> stand for the columns \<open>Visibility(mi)\<close>,
  \<open>Temperature(F)\<close> and \<open>Wind_Speed(mph)\<close>. A table is the list of its rows in
  index order.
\<close>

record row =
  Start_Time :: "timestamp option"
  Date :: "date option"
  Hour :: "int option"
  Month :: "int option"
  Day :: "string option"
  State :: "string option"
  City :: "string option"
  Weather_Condition :: "string option"
  Severity :: "int option"
  Start_Lat :: "rat option"
  Start_Lng :: "rat option"
  Visibility :: "rat option"
  Temperature :: "rat option"
  Wind_Speed :: "rat option"

section \<open>Loading\<close>

text \<open>
  \<open>load_data\<close>, lines 19 to 28. The parser behind
  \<open>pd.to_datetime(..., errors="coerce")\<close> and the calendar function behind
  \<open>.dt.day_name()\<close> belong to the library and are parameters; coercion turns a
  missing cell and a text the parser rejects into NaT. The accessors \<open>.dt.date\<close>,
  \<open>.dt.hour\<close>, \<open>.dt.month\<close> and \<open>.dt.day_name()\<close> give the null value on NaT.
\<close>

definition coerce_datetime :: "(string \<Rightarrow> timestamp option) \<Rightarrow> string option \<Rightarrow> timestamp option" where
  "coerce_datetime to_datetime cell = (case cell of None \<Rightarrow> None | Some s \<Rightarrow> to_datetime s)"

definition load_row :: "(string \<Rightarrow> timestamp option) \<Rightarrow> (timestamp \<Rightarrow> string) \<Rightarrow> csv_row \<Rightarrow> row" where
  "load_row to_datetime day_name c =
     (let start_time = coerce_datetime to_datetime (csv_Start_Time c) in
      \<lparr> Start_Time = start_time,
        Date = map_option ts_date start_time,
        Hour = map_option ts_hour start_time,
        Month = map_option (\<lambda>t. d_month (ts_date t)) start_time,
        Day = map_option day_name start_time,
        State = csv_State c,
        City = csv_City c,
        Weather_Condition = csv_Weather_Condition c,
        Severity = csv_Severity c,
        Start_Lat = csv_Start_Lat c,
        Start_Lng = csv_Start_Lng c,
        Visibility = csv_Visibility c,
        Temperature = csv_Temperature c,
        Wind_Speed = csv_Wind_Speed c \<rparr>)"

definition load_data :: "(string \<Rightarrow> timestamp option) \<Rightarrow> (timestamp \<Rightarrow> string) \<Rightarrow> csv_row list \<Rightarrow> row list" where
  "load_data to_datetime day_name csv = map (load_row to_datetime day_name) csv"

section \<open>Filtering\<close>

text \<open>
  The element-wise comparisons of a column with a scalar. A null cell compares false:
  \<open>Date >= start_date\<close>, \<open>Date <= end_date\<close> and \<open>between\<close> (inclusive on both
  sides) are false on NaT and NaN. \<open>isin\<close> is membership in the selected values.
\<close>

definition ge_date :: "date option \<Rightarrow> date \<Rightarrow> bool" where
  "ge_date v d = (case v of None \<Rightarrow> False | Some x \<Rightarrow> date_le d x)"

definition le_date :: "date option \<Rightarrow> date \<Rightarrow> bool" where
  "le_date v d = (case v of None \<Rightarrow> False | Some x \<Rightarrow> date_le x d)"

definition between :: "int option \<Rightarrow> int \<Rightarrow> int \<Rightarrow> bool" where
  "between v left right = (case v of None \<Rightarrow> False | Some x \<Rightarrow> left \<le> x \<and> x \<le> right)"

definition isin :: "'a \<Rightarrow> 'a list \<Rightarrow> bool" where
  "isin v values = (v \<in> set values)"

text \<open>
  \<open>get_filtered_data\<close>, lines 91 to 114: the table that a call returns. Boolean
  indexing keeps the rows whose mask is true, in index order; \<open>if state:\<close> is true of
  a non-empty list. A call does not always return: see \<open>run_get_filtered_data\<close>.
\<close>

definition get_filtered_data ::
  "row list \<Rightarrow> string option list \<Rightarrow> int option list \<Rightarrow> string option list \<Rightarrow> string option list
     \<Rightarrow> int \<times> int \<Rightarrow> int \<times> int \<Rightarrow> date \<Rightarrow> date \<Rightarrow> row list" where
  "get_filtered_data df state severity weather day hour_range month_range start_date end_date =
     (let filtered_df = df;
          filtered_df = filter (\<lambda>r. ge_date (Date r) start_date \<and> le_date (Date r) end_date) filtered_df;
          filtered_df = (if state \<noteq> [] then filter (\<lambda>r. isin (State r) state) filtered_df
                         else filtered_df);
          filtered_df = (if severity \<noteq> [] then filter (\<lambda>r. isin (Severity r) severity) filtered_df
                         else filtered_df);
          filtered_df = (if weather \<noteq> [] then filter (\<lambda>r. isin (Weather_Condition r) weather) filtered_df
                         else filtered_df);
          filtered_df = (if day \<noteq> [] then filter (\<lambda>r. isin (Day r) day) filtered_df
                         else filtered_df);
          filtered_df = filter (\<lambda>r. between (Hour r) (fst hour_range) (snd hour_range) \<and>
                                       between (Month r) (fst month_range) (snd month_range)) filtered_df
      in filtered_df)"

text \<open>
  A call \<open>get_filtered_data(df, ...)\<close> on a loaded table, with the exception it can
  raise. When the table has rows and no timestamp of it parsed, \<open>.dt.date\<close> gives a
  column of NaT only, which the library stores as a datetime64 column, and the
  comparison of such a column with the \<open>datetime.date\<close> \<open>start_date\<close> on line 96
  raises \<open>TypeError\<close>. In every other case the \<open>Date\<close> column holds Python
  objects (or nothing), the comparisons are element-wise as above, and the call returns.
\<close>

datatype error = TypeError

definition date_column_is_datetime64 :: "row list \<Rightarrow> bool" where
  "date_column_is_datetime64 df = (df \<noteq> [] \<and> list_all (\<lambda>r. Date r = None) df)"

definition run_get_filtered_data ::
  "row list \<Rightarrow> string option list \<Rightarrow> int option list \<Rightarrow> string option list \<Rightarrow> string option list
     \<Rightarrow> int \<times> int \<Rightarrow> int \<times> int \<Rightarrow> date \<Rightarrow> date \<Rightarrow> error + row list" where
  "run_get_filtered_data df state severity weather day hour_range month_range start_date end_date =
     (if date_column_is_datetime64 df then Inl TypeError
      else Inr (get_filtered_data df state severity weather day hour_range month_range
                  start_date end_date))"

section \<open>Summary metrics\<close>

text \<open>
  \<open>Series.mean()\<close> skips null cells; with no value left it is NaN (\<open>None\<close>).
  The mean is the exact quotient here; the program holds its nearest binary
  floating-point number.
\<close>

definition series_mean :: "int option list \<Rightarrow> rat option" where
  "series_mean col =
     (let vs = [x. Some x \<leftarrow> col] in
      if vs = [] then None else Some (of_int (sum_list vs) / of_int (int (length vs))))"

text \<open>
  Line 123: \<open>round(filtered_df["Severity"].mean(), 2) if len(filtered_df) > 0 else 0\<close>.
  \<open>None\<close> is NaN, which \<open>round\<close> leaves as it is. \<open>round2\<close> is the library's
  \<open>round(x, 2)\<close> on the floating-point mean, a parameter: it takes the exact mean
  and gives the decimal number that the rounded float stands for.
\<close>

definition average_severity :: "(rat \<Rightarrow> rat) \<Rightarrow> row list \<Rightarrow> rat option" where
  "average_severity round2 filtered_df =
     (if length filtered_df > 0
      then map_option round2 (series_mean (map Severity filtered_df))
      else Some 0)"

text \<open>
  What rounding to two decimals means: the result is a whole number of hundredths, and
  it is within half a hundredth of the argument, up to the error of the floating-point
  steps (the mean, its product with 100 and the quotient by 100 are each rounded to 53
  bits, which moves the argument by less than \<open>\<bar>x\<bar> / 2 ^ 50\<close>). On an argument
  half-way between two hundredths either neighbour is allowed: which one the program
  returns depends on the binary expansion of the mean.
\<close>

definition rounds_to_two_decimals :: "(rat \<Rightarrow> rat) \<Rightarrow> bool" where
  "rounds_to_two_decimals round2 =
     (\<forall>x. \<exists>k::int. round2 x = of_int k / 100 \<and> \<bar>of_int k / 100 - x\<bar> \<le> 1 / 200 + \<bar>x\<bar> / 2 ^ 50)"

section \<open>Grouping\<close>

text \<open>
  Lines 33 to 36 turn \<open>State\<close>, \<open>City\<close>, \<open>Weather_Condition\<close> and \<open>Day\<close> of the
  base table into categorical columns: the categories are the distinct non-null values
  of the base column in sorted order, and every table filtered from it keeps them.
\<close>

definition categories :: "('a::linorder) option list \<Rightarrow> 'a list" where
  "categories col = sort (remdups [x. Some x \<leftarrow> col])"

text \<open>
  \<open>groupby(key).size()\<close> on a categorical key: one entry per category, in category
  order, with the number of rows of that category. \<open>observed\<close> is the library's default
  for the option of that name: when it is false (pandas before 3.0) every category has
  an entry, with 0 where no row has it; when it is true only categories with a row do.
\<close>

definition groupby_size :: "bool \<Rightarrow> 'a list \<Rightarrow> 'a option list \<Rightarrow> ('a \<times> nat) list" where
  "groupby_size observed cats col =
     (let sizes = map (\<lambda>k. (k, count_list col (Some k))) cats in
      if observed then filter (\<lambda>p. 0 < snd p) sizes else sizes)"

text \<open>
  \<open>Series.reindex(labels)\<close>: one entry per label, in the order of \<open>labels\<close>; a label
  that is not in the index gets NaN (\<open>None\<close>).
\<close>

definition reindex :: "'a list \<Rightarrow> ('a \<times> nat) list \<Rightarrow> ('a \<times> nat option) list" where
  "reindex labels series = map (\<lambda>l. (l, map_of series l)) labels"

definition weekdays :: "string list" where
  "weekdays = [''Monday'', ''Tuesday'', ''Wednesday'', ''Thursday'', ''Friday'', ''Saturday'', ''Sunday'']"

text \<open>
  Lines 156 to 158, the data of \<open>fig3\<close>:
  \<open>filtered_df.groupby("Day").size().reindex([...]).reset_index(name="Count")\<close>.
  \<open>df\<close> is the base table, whose \<open>Day\<close> column fixes the categories.
\<close>

definition day_counts :: "bool \<Rightarrow> row list \<Rightarrow> row list \<Rightarrow> (string \<times> nat option) list" where
  "day_counts observed df filtered_df =
     reindex weekdays (groupby_size observed (categories (map Day df)) (map Day filtered_df))"

text \<open>
  Lines 175 to 181, \<open>state_counts\<close>: group by \<open>State\<close>, sort by the count in
  descending order, keep the first 15. \<open>sort_values\<close> is the library's
  \<open>sort_values("Accident Count", ascending=False)\<close> with its default
  \<open>kind="quicksort"\<close>, a parameter: the library documents that algorithm as not
  stable, so the order it gives to groups with equal counts is the library's own.
\<close>

definition state_groups :: "bool \<Rightarrow> row list \<Rightarrow> row list \<Rightarrow> (string \<times> nat) list" where
  "state_groups observed df filtered_df =
     groupby_size observed (categories (map State df)) (map State filtered_df)"

definition state_counts ::
  "((string \<times> nat) list \<Rightarrow> (string \<times> nat) list) \<Rightarrow> bool \<Rightarrow> row list \<Rightarrow> row list \<Rightarrow> (string \<times> nat) list" where
  "state_counts sort_values observed df filtered_df =
     take 15 (sort_values (state_groups observed df filtered_df))"

section \<open>Map points\<close>

text \<open>
  Lines 205 to 208. \<open>dropna(subset=["Start_Lat", "Start_Lng"])\<close> keeps the rows with
  both coordinates present. \<open>sample\<close> is the library's \<open>DataFrame.sample\<close>, a
  parameter taking the seed, the table and the number of rows asked for; the program
  calls it with \<open>random_state=42\<close>.
\<close>

definition dropna_coords :: "row list \<Rightarrow> row list" where
  "dropna_coords filtered_df = filter (\<lambda>r. Start_Lat r \<noteq> None \<and> Start_Lng r \<noteq> None) filtered_df"

definition map_df :: "(nat \<Rightarrow> row list \<Rightarrow> nat \<Rightarrow> row list) \<Rightarrow> row list \<Rightarrow> nat \<Rightarrow> row list" where
  "map_df sample filtered_df map_points =
     (let map_df = dropna_coords filtered_df in
      if length map_df > map_points then sample 42 map_df map_points else map_df)"

section \<open>Correlation\<close>

text \<open>
  Lines 273 to 285. \<open>filtered_df[corr_cols].dropna()\<close> projects every row on the four
  columns and drops the rows with a null cell among them. With no row left the tab
  shows a warning; otherwise it shows the matrix of \<open>corr_df.corr()\<close>, the library's
  correlation, a parameter.
\<close>

type_synonym corr_row = "int option \<times> rat option \<times> rat option \<times> rat option"

definition corr_cols :: "row \<Rightarrow> corr_row" where
  "corr_cols r = (Severity r, Visibility r, Temperature r, Wind_Speed r)"

fun complete :: "corr_row \<Rightarrow> bool" where
  "complete (s, v, t, w) = (s \<noteq> None \<and> v \<noteq> None \<and> t \<noteq> None \<and> w \<noteq> None)"

definition corr_df :: "row list \<Rightarrow> corr_row list" where
  "corr_df filtered_df = filter complete (map corr_cols filtered_df)"

datatype 'm corr_tab = Warning string | Heatmap 'm

definition correlation_tab :: "(corr_row list \<Rightarrow> 'm) \<Rightarrow> row list \<Rightarrow> 'm corr_tab" where
  "correlation_tab corr filtered_df =
     (let corr_df = corr_df filtered_df in
      if length corr_df = 0 then Warning ''Not enough data available for correlation heatmap.''
      else Heatmap (corr corr_df))"

section \<open>Example data\<close>

text \<open>
  A row whose timestamp parsed, on the given date, hour and weekday, in the given state
  and with the given severity; and the same row with its coordinates missing.
\<close>

definition accident :: "date \<Rightarrow> int \<Rightarrow> string \<Rightarrow> string \<Rightarrow> int \<Rightarrow> row" where
  "accident d h wd st sev =
     \<lparr> Start_Time = Some (Timestamp d h 0 0), Date = Some d, Hour = Some h,
       Month = Some (d_month d), Day = Some wd, State = Some st, City = Some ''Springfield'',
       Weather_Condition = Some ''Clear'', Severity = Some sev,
       Start_Lat = Some 40, Start_Lng = Some (- 75),
       Visibility = Some 10, Temperature = Some 60, Wind_Speed = Some 5 \<rparr>"

definition no_coords :: "row \<Rightarrow> row" where
  "no_coords r = r\<lparr> Start_Lat := None, Start_Lng := None \<rparr>"

text \<open>A line of the file with the given text in \<open>Start_Time\<close>.\<close>

definition csv_line :: "string \<Rightarrow> string \<Rightarrow> int \<Rightarrow> csv_row" where
  "csv_line txt st sev =
     \<lparr> csv_Start_Time = Some txt, csv_State = Some st, csv_City = Some ''Springfield'',
       csv_Weather_Condition = Some ''Clear'', csv_Severity = Some sev,
       csv_Start_Lat = Some 40, csv_Start_Lng = Some (- 75),
       csv_Visibility = Some 10, csv_Temperature = Some 60, csv_Wind_Speed = Some 5 \<rparr>"

text \<open>
  A parser that accepts one text only, a stand-in for the library's in the examples,
  and a weekday function that fits it (1 March 2021 was a Monday).
\<close>

definition example_to_datetime :: "string \<Rightarrow> timestamp option" where
  "example_to_datetime s =
     (if s = ''2021-03-01 08:15:00'' then Some (Timestamp (MkDate 2021 3 1) 8 15 0) else None)"

definition example_day_name :: "timestamp \<Rightarrow> string" where
  "example_day_name t = ''Monday''"

definition example_csv :: "csv_row list" where
  "example_csv = [csv_line ''2021-03-01 08:15:00'' ''CA'' 2, csv_line ''not a time'' ''NY'' 3]"

text \<open>Three accidents of one week, the severities of the scenario of the specification.\<close>

definition example_df :: "row list" where
  "example_df =
     [accident (MkDate 2021 3 1) 8 ''Monday'' ''CA'' 1,
      accident (MkDate 2021 3 1) 17 ''Monday'' ''NY'' 2,
      accident (MkDate 2021 3 3) 9 ''Wednesday'' ''CA'' 1]"

definition no_criteria :: "row list \<Rightarrow> row list" where
  "no_criteria df = get_filtered_data df [] [] [] [] (0, 23) (1, 12) (MkDate 2021 1 1) (MkDate 2021 12 31)"

text \<open>The rows of \<open>example_df\<close> that fall on a Monday.\<close>

definition monday_df :: "row list" where
  "monday_df =
     get_filtered_data example_df [] [] [] [Some ''Monday''] (0, 23) (1, 12)
       (MkDate 2021 1 1) (MkDate 2021 12 31)"

text \<open>Two states with one accident each.\<close>

definition tie_df :: "row list" where
  "tie_df =
     [accident (MkDate 2021 3 1) 8 ''Monday'' ''CA'' 2,
      accident (MkDate 2021 3 2) 9 ''Tuesday'' ''NY'' 3]"

text \<open>Three rows, the second without coordinates and without a visibility.\<close>

definition gaps_df :: "row list" where
  "gaps_df =
     [accident (MkDate 2021 3 1) 8 ''Monday'' ''CA'' 2,
      (no_coords (accident (MkDate 2021 3 2) 9 ''Tuesday'' ''NY'' 3))\<lparr> Visibility := None \<rparr>,
      accident (MkDate 2021 3 3) 10 ''Wednesday'' ''TX'' 2]"

text \<open>
  Stand-ins for the library in the examples: a sampler that takes the first rows
  whatever the seed, and a correlation that only counts the rows it is given.
\<close>

definition example_sample :: "nat \<Rightarrow> row list \<Rightarrow> nat \<Rightarrow> row list" where
  "example_sample seed xs n = take n xs"

definition example_corr :: "corr_row list \<Rightarrow> nat" where
  "example_corr rows = length rows"

text \<open>
  A rounding to two decimals to show that there is one: exact, with the half-way
  arguments rounded up.
\<close>

definition example_round2 :: "rat \<Rightarrow> rat" where
  "example_round2 x = of_int \<lfloor>x * 100 + 1 / 2\<rfloor> / 100"

text \<open>A file in which no \<open>Start_Time\<close> is a time.\<close>

definition unparsable_csv :: "csv_row list" where
  "unparsable_csv = [csv_line ''not a time'' ''CA'' 2, csv_line ''unknown'' ''NY'' 3]"

section \<open>Properties of the filter\<close>

lemma get_filtered_data_filter:
  "get_filtered_data df state severity weather day hour_range month_range start_date end_date =
     filter (\<lambda>r. (ge_date (Date r) start_date \<and> le_date (Date r) end_date) \<and>
                  (state = [] \<or> isin (State r) state) \<and>
                  (severity = [] \<or> isin (Severity r) severity) \<and>
                  (weather = [] \<or> isin (Weather_Condition r) weather) \<and>
                  (day = [] \<or> isin (Day r) day) \<and>
                  (between (Hour r) (fst hour_range) (snd hour_range) \<and>
                   between (Month r) (fst month_range) (snd month_range))) df"
  unfolding get_filtered_data_def Let_def
  by (auto intro: filter_cong)

text \<open>
  C1. An empty selection for state, severity, weather or weekday puts no restriction on
  that dimension: the result is the base table filtered by the conjunction of the
  remaining criteria, the date range, the other three selections and the hour and month
  ranges, with the dimension of the empty selection left out.
\<close>

theorem empty_selection_no_restriction:
  "get_filtered_data df [] severity weather day hour_range month_range start_date end_date =
     filter (\<lambda>r. (ge_date (Date r) start_date \<and> le_date (Date r) end_date) \<and>
                  (severity = [] \<or> isin (Severity r) severity) \<and>
                  (weather = [] \<or> isin (Weather_Condition r) weather) \<and>
                  (day = [] \<or> isin (Day r) day) \<and>
                  (between (Hour r) (fst hour_range) (snd hour_range) \<and>
                   between (Month r) (fst month_range) (snd month_range))) df \<and>
   get_filtered_data df state [] weather day hour_range month_range start_date end_date =
     filter (\<lambda>r. (ge_date (Date r) start_date \<and> le_date (Date r) end_date) \<and>
                  (state = [] \<or> isin (State r) state) \<and>
                  (weather = [] \<or> isin (Weather_Condition r) weather) \<and>
                  (day = [] \<or> isin (Day r) day) \<and>
                  (between (Hour r) (fst hour_range) (snd hour_range) \<and>
                   between (Month r) (fst month_range) (snd month_range))) df \<and>
   get_filtered_data df state severity [] day hour_range month_range start_date end_date =
     filter (\<lambda>r. (ge_date (Date r) start_date \<and> le_date (Date r) end_date) \<and>
                  (state = [] \<or> isin (State r) state) \<and>
                  (severity = [] \<or> isin (Severity r) severity) \<and>
                  (day = [] \<or> isin (Day r) day) \<and>
                  (between (Hour r) (fst hour_range) (snd hour_range) \<and>
                   between (Month r) (fst month_range) (snd month_range))) df \<and>
   get_filtered_data df state severity weather [] hour_range month_range start_date end_date =
     filter (\<lambda>r. (ge_date (Date r) start_date \<and> le_date (Date r) end_date) \<and>
                  (state = [] \<or> isin (State r) state) \<and>
                  (severity = [] \<or> isin (Severity r) severity) \<and>
                  (weather = [] \<or> isin (Weather_Condition r) weather) \<and>
                  (between (Hour r) (fst hour_range) (snd hour_range) \<and>
                   between (Month r) (fst month_range) (snd month_range))) df"
  by (simp add: get_filtered_data_filter)

text \<open>
  C2. The filtered table is made of rows of the base table: it is the base table with
  some rows left out, every kept row at its place and in index order, so no row is
  invented.
\<close>

theorem filtered_rows_are_base_rows:
  "subseq (get_filtered_data df state severity weather day hour_range month_range start_date end_date) df \<and>
   set (get_filtered_data df state severity weather day hour_range month_range start_date end_date)
     \<subseteq> set df"
  by (simp add: get_filtered_data_filter)

text \<open>
  C3. The filter is a function of the table and the criteria alone (it reads nothing
  else, and works on a copy), so equal arguments give equal results; and it is
  idempotent: filtering the filtered table again by the same criteria changes nothing.
\<close>

theorem get_filtered_data_idempotent:
  "get_filtered_data
     (get_filtered_data df state severity weather day hour_range month_range start_date end_date)
     state severity weather day hour_range month_range start_date end_date =
   get_filtered_data df state severity weather day hour_range month_range start_date end_date"
  by (simp add: get_filtered_data_filter cong: conj_cong)

section \<open>Properties of the weekday counts\<close>

lemma map_of_sizes:
  "map_of (map (\<lambda>k. (k, f k)) cats) d = (if d \<in> set cats then Some (f d) else None)"
  by (induction cats) auto

lemma map_of_observed_sizes:
  "map_of (filter (\<lambda>p. 0 < snd p) (map (\<lambda>k. (k, f k)) cats)) d =
     (if d \<in> set cats \<and> 0 < f d then Some (f d) else None)"
  by (induction cats) auto

lemma map_of_groupby_size:
  "map_of (groupby_size observed cats col) d =
     (if d \<in> set cats \<and> (observed \<longrightarrow> 0 < count_list col (Some d))
      then Some (count_list col (Some d)) else None)"
  by (simp add: groupby_size_def Let_def map_of_sizes map_of_observed_sizes)

lemma set_categories: "set (categories col) = {x. Some x \<in> set col}"
  by (auto simp add: categories_def)

lemma monday_df_rows:
  "monday_df =
     [accident (MkDate 2021 3 1) 8 ''Monday'' ''CA'' 1, accident (MkDate 2021 3 1) 17 ''Monday'' ''NY'' 2]"
  by (simp add: monday_df_def example_df_def get_filtered_data_def accident_def ge_date_def
      le_date_def between_def isin_def)

text \<open>
  C4, as the program has it. The weekday output lists exactly the seven weekdays from
  Monday to Sunday. A weekday that is a category of the \<open>Day\<close> column (it occurs in
  the base table) and that the grouping keeps (every category when unobserved
  categories are kept, else the categories with a row in the filtered table) appears
  with its number of filtered rows, which is 0 for a kept category without rows. Every
  other weekday appears with a null count.
\<close>

theorem day_counts_weekdays:
  "map fst (day_counts observed df filtered_df) = weekdays \<and>
   (\<forall>d \<in> set weekdays.
      map_of (day_counts observed df filtered_df) d =
        Some (if Some d \<in> set (map Day df) \<and>
                 (observed \<longrightarrow> 0 < count_list (map Day filtered_df) (Some d))
              then Some (count_list (map Day filtered_df) (Some d)) else None))"
  by (simp add: day_counts_def reindex_def map_of_sizes map_of_groupby_size comp_def set_categories)

theorem day_counts_weekdays_witness:
  "map fst (day_counts False example_df monday_df) = weekdays \<and>
   map_of (day_counts False example_df monday_df) ''Monday'' = Some (Some 2) \<and>
   map_of (day_counts False example_df monday_df) ''Wednesday'' = Some (Some 0) \<and>
   map_of (day_counts True example_df monday_df) ''Wednesday'' = Some None \<and>
   map_of (day_counts False example_df monday_df) ''Tuesday'' = Some None"
proof -
  have days: "map Day example_df = [Some ''Monday'', Some ''Monday'', Some ''Wednesday'']"
    by (simp add: example_df_def accident_def)
  have mondays: "map Day monday_df = [Some ''Monday'', Some ''Monday'']"
    by (simp add: monday_df_rows accident_def)
  have mem: "''Monday'' \<in> set weekdays" "''Tuesday'' \<in> set weekdays" "''Wednesday'' \<in> set weekdays"
    by (simp_all add: weekdays_def)
  show ?thesis
    using day_counts_weekdays[of False example_df monday_df]
      day_counts_weekdays[of True example_df monday_df] mem
    by (simp add: days mondays)
qed

text \<open>
  The claim as written fails: no row of the table below falls on a Tuesday, and Tuesday
  appears with a null count, not with 0, whichever way unobserved categories are
  treated.
\<close>

theorem day_counts_counterexample:
  "count_list (map Day example_df) (Some ''Tuesday'') = 0 \<and>
   day_counts False example_df example_df =
     [(''Monday'', Some 2), (''Tuesday'', None), (''Wednesday'', Some 1), (''Thursday'', None),
      (''Friday'', None), (''Saturday'', None), (''Sunday'', None)] \<and>
   day_counts True example_df example_df =
     [(''Monday'', Some 2), (''Tuesday'', None), (''Wednesday'', Some 1), (''Thursday'', None),
      (''Friday'', None), (''Saturday'', None), (''Sunday'', None)]"
  by (simp add: day_counts_def reindex_def weekdays_def groupby_size_def categories_def
      example_df_def accident_def Let_def)

section \<open>Properties of the map points\<close>

lemma dropna_coords_gaps:
  "dropna_coords gaps_df =
     [accident (MkDate 2021 3 1) 8 ''Monday'' ''CA'' 2, accident (MkDate 2021 3 3) 10 ''Wednesday'' ''TX'' 2]"
  by (simp add: dropna_coords_def gaps_df_def accident_def no_coords_def)

text \<open>
  C5. Let the sampler return as many rows as it is asked for whenever the table has
  that many. Then with at most \<open>map_points\<close> rows with coordinates the map shows all
  of them; with more it shows exactly \<open>map_points\<close> rows, namely the sampler's answer
  on those rows for the fixed seed 42, the same at every call.
\<close>

theorem map_df_sampling:
  assumes "\<forall>seed xs n. n \<le> length xs \<longrightarrow> length (sample seed xs n) = n"
  shows "(length (dropna_coords filtered_df) \<le> map_points \<longrightarrow>
            map_df sample filtered_df map_points = dropna_coords filtered_df) \<and>
         (map_points < length (dropna_coords filtered_df) \<longrightarrow>
            length (map_df sample filtered_df map_points) = map_points \<and>
            map_df sample filtered_df map_points = sample 42 (dropna_coords filtered_df) map_points)"
  using assms by (simp add: map_df_def Let_def)

theorem map_df_sampling_witness:
  "length (dropna_coords gaps_df) = 2 \<and>
   map_df example_sample gaps_df 5 = dropna_coords gaps_df \<and>
   length (map_df example_sample gaps_df 1) = 1"
proof -
  have c: "\<forall>seed xs n. n \<le> length xs \<longrightarrow> length (example_sample seed xs n) = n"
    by (simp add: example_sample_def)
  have l: "length (dropna_coords gaps_df) = 2" by (simp add: dropna_coords_gaps)
  show ?thesis
    using map_df_sampling[OF c, of gaps_df 5] map_df_sampling[OF c, of gaps_df 1] l
    by auto
qed

section \<open>Properties of the correlation tab\<close>

text \<open>
  C6. \<open>corr_df\<close> holds the four columns of exactly the filtered rows in which
  severity, visibility, temperature and wind speed are all present. When there is no
  such row the tab shows the warning; otherwise it shows the correlation of
  \<open>corr_df\<close>.
\<close>

theorem correlation_complete_rows:
  "corr_df filtered_df =
     map corr_cols (filter (\<lambda>r. Severity r \<noteq> None \<and> Visibility r \<noteq> None \<and>
                               Temperature r \<noteq> None \<and> Wind_Speed r \<noteq> None) filtered_df) \<and>
   (corr_df filtered_df = [] \<longrightarrow>
      correlation_tab corr filtered_df = Warning ''Not enough data available for correlation heatmap.'') \<and>
   (corr_df filtered_df \<noteq> [] \<longrightarrow>
      correlation_tab corr filtered_df = Heatmap (corr (corr_df filtered_df)))"
  by (simp add: corr_df_def correlation_tab_def Let_def filter_map comp_def corr_cols_def)

theorem correlation_complete_rows_witness:
  "corr_df gaps_df = [(Some 2, Some 10, Some 60, Some 5), (Some 2, Some 10, Some 60, Some 5)] \<and>
   correlation_tab example_corr gaps_df = Heatmap 2 \<and>
   corr_df [gaps_df ! 1] = [] \<and>
   correlation_tab example_corr [gaps_df ! 1] =
     Warning ''Not enough data available for correlation heatmap.''"
proof -
  have full: "corr_df gaps_df = [(Some 2, Some 10, Some 60, Some 5), (Some 2, Some 10, Some 60, Some 5)]"
    by (simp add: corr_df_def corr_cols_def gaps_df_def accident_def no_coords_def)
  have none: "corr_df [gaps_df ! 1] = []"
    by (simp add: corr_df_def corr_cols_def gaps_df_def accident_def no_coords_def)
  show ?thesis
    using correlation_complete_rows[of gaps_df example_corr]
      correlation_complete_rows[of "[gaps_df ! 1]" example_corr] full none
    by (simp add: example_corr_def)
qed

section \<open>Properties of the average severity\<close>

lemma example_round2_rounds: "rounds_to_two_decimals example_round2"
  unfolding rounds_to_two_decimals_def
proof
  fix x :: rat
  let ?k = "\<lfloor>x * 100 + 1 / 2\<rfloor>"
  have lo: "of_int ?k \<le> x * 100 + 1 / 2" by (rule of_int_floor_le)
  have hi: "x * 100 + 1 / 2 < of_int ?k + 1" by linarith
  have "\<bar>of_int ?k / 100 - x\<bar> \<le> 1 / 200" using lo hi by linarith
  moreover have "(0::rat) \<le> \<bar>x\<bar> / 2 ^ 50" by simp
  ultimately have "\<bar>of_int ?k / 100 - x\<bar> \<le> 1 / 200 + \<bar>x\<bar> / 2 ^ 50" by linarith
  then show "\<exists>k::int. example_round2 x = of_int k / 100 \<and>
               \<bar>of_int k / 100 - x\<bar> \<le> 1 / 200 + \<bar>x\<bar> / 2 ^ 50"
    unfolding example_round2_def by blast
qed

lemma only_hundredth_near_four_thirds:
  fixes k :: int
  assumes "\<bar>of_int k / 100 - (4 / 3 :: rat)\<bar> \<le> 1 / 200 + \<bar>4 / 3\<bar> / 2 ^ 50"
  shows "k = 133"
proof -
  have small: "\<bar>4 / 3 :: rat\<bar> / 2 ^ 50 \<le> 1 / 1000" by simp
  have "\<bar>of_int k / 100 - (4 / 3 :: rat)\<bar> \<le> 1 / 200 + 1 / 1000"
    using assms small by linarith
  then have up: "of_int k / 100 - (4 / 3 :: rat) \<le> 1 / 200 + 1 / 1000"
    and dn: "- (of_int k / 100 - (4 / 3 :: rat)) \<le> 1 / 200 + 1 / 1000"
    by linarith+
  have "(of_int k :: rat) < 134" using up by linarith
  moreover have "(132 :: rat) < of_int k" using dn by linarith
  ultimately have "k < 134" and "132 < k" by simp_all
  then show ?thesis by simp
qed

text \<open>
  C7, as the program has it. With no filtered row the metric is exactly 0. Otherwise
  it is NaN when every severity is missing, and else the mean of the severity column
  rounded to two decimals: a whole number of hundredths within half a hundredth of the
  mean, up to the floating-point error.
\<close>

theorem average_severity_rounded:
  assumes "rounds_to_two_decimals round2"
  shows "average_severity round2 [] = Some 0 \<and>
         (filtered_df \<noteq> [] \<longrightarrow>
            (case series_mean (map Severity filtered_df) of
               None \<Rightarrow> average_severity round2 filtered_df = None
             | Some m \<Rightarrow>
                 (\<exists>k::int. average_severity round2 filtered_df = Some (of_int k / 100) \<and>
                            \<bar>of_int k / 100 - m\<bar> \<le> 1 / 200 + \<bar>m\<bar> / 2 ^ 50)))"
proof (rule conjI)
  show "average_severity round2 [] = Some 0" by (simp add: average_severity_def)
next
  show "filtered_df \<noteq> [] \<longrightarrow>
          (case series_mean (map Severity filtered_df) of
             None \<Rightarrow> average_severity round2 filtered_df = None
           | Some m \<Rightarrow>
               (\<exists>k::int. average_severity round2 filtered_df = Some (of_int k / 100) \<and>
                          \<bar>of_int k / 100 - m\<bar> \<le> 1 / 200 + \<bar>m\<bar> / 2 ^ 50))"
  proof
    assume ne: "filtered_df \<noteq> []"
    show "case series_mean (map Severity filtered_df) of
             None \<Rightarrow> average_severity round2 filtered_df = None
           | Some m \<Rightarrow>
               (\<exists>k::int. average_severity round2 filtered_df = Some (of_int k / 100) \<and>
                          \<bar>of_int k / 100 - m\<bar> \<le> 1 / 200 + \<bar>m\<bar> / 2 ^ 50)"
    proof (cases "series_mean (map Severity filtered_df)")
      case None
      then show ?thesis using ne by (simp add: average_severity_def)
    next
      case (Some m)
      obtain k :: int where "round2 m = of_int k / 100"
          and "\<bar>of_int k / 100 - m\<bar> \<le> 1 / 200 + \<bar>m\<bar> / 2 ^ 50"
        using assms unfolding rounds_to_two_decimals_def by blast
      then show ?thesis using Some ne by (auto simp add: average_severity_def)
    qed
  qed
qed

theorem average_severity_rounded_witness:
  "rounds_to_two_decimals example_round2 \<and> tie_df \<noteq> [] \<and>
   series_mean (map Severity tie_df) = Some (5 / 2) \<and>
   average_severity example_round2 tie_df = Some (5 / 2) \<and>
   (\<exists>k::int. average_severity example_round2 tie_df = Some (of_int k / 100) \<and>
              \<bar>of_int k / 100 - (5 / 2 :: rat)\<bar> \<le> 1 / 200 + \<bar>5 / 2\<bar> / 2 ^ 50)"
proof -
  have ne: "tie_df \<noteq> []" by (simp add: tie_df_def)
  have m: "series_mean (map Severity tie_df) = Some (5 / 2)"
    by (simp add: series_mean_def tie_df_def accident_def)
  have fl: "\<lfloor>501 / 2 :: rat\<rfloor> = 250" by (rule floor_unique) simp_all
  have a: "average_severity example_round2 tie_df = Some (5 / 2)"
    using ne by (simp add: average_severity_def m example_round2_def fl)
  show ?thesis
    using average_severity_rounded[OF example_round2_rounds, of tie_df] ne m a
      example_round2_rounds
    by simp
qed

text \<open>
  The claim as written fails where the mean has more than two decimals. The severities
  1, 2, 1 have the mean 4/3, and whatever rounding to two decimals the library
  performs, the metric is 1.33: that is the only whole number of hundredths near
  enough.
\<close>

theorem average_severity_counterexample:
  "example_df \<noteq> [] \<and>
   series_mean (map Severity example_df) = Some (4 / 3) \<and>
   \<not> (\<exists>round2. rounds_to_two_decimals round2 \<and>
                 average_severity round2 example_df \<noteq> Some (133 / 100))"
proof -
  have ne: "example_df \<noteq> []" by (simp add: example_df_def)
  have m: "series_mean (map Severity example_df) = Some (4 / 3)"
    by (simp add: series_mean_def example_df_def accident_def)
  have "average_severity round2 example_df = Some (133 / 100)"
    if r: "rounds_to_two_decimals round2" for round2
  proof -
    obtain k :: int where v: "round2 (4 / 3) = of_int k / 100"
        and near: "\<bar>of_int k / 100 - (4 / 3 :: rat)\<bar> \<le> 1 / 200 + \<bar>4 / 3\<bar> / 2 ^ 50"
      using r unfolding rounds_to_two_decimals_def by blast
    have "k = 133" using near by (rule only_hundredth_near_four_thirds)
    then show ?thesis using ne m v by (simp add: average_severity_def)
  qed
  then show ?thesis using ne m by blast
qed

section \<open>Rows without a timestamp\<close>

lemma load_example_csv:
  "load_data example_to_datetime example_day_name example_csv =
     [accident (MkDate 2021 3 1) 8 ''Monday'' ''CA'' 2
        \<lparr> Start_Time := Some (Timestamp (MkDate 2021 3 1) 8 15 0) \<rparr>,
      \<lparr> Start_Time = None, Date = None, Hour = None, Month = None, Day = None,
        State = Some ''NY'', City = Some ''Springfield'', Weather_Condition = Some ''Clear'',
        Severity = Some 3, Start_Lat = Some 40, Start_Lng = Some (- 75),
        Visibility = Some 10, Temperature = Some 60, Wind_Speed = Some 5 \<rparr>]"
  by (simp add: load_data_def load_row_def example_csv_def csv_line_def coerce_datetime_def
      example_to_datetime_def example_day_name_def accident_def)

text \<open>
  The loader alone does what it should: it returns one row for every line of the file,
  and the row of a line whose timestamp does not parse has a null \<open>Start_Time\<close>,
  \<open>Date\<close>, \<open>Hour\<close>, \<open>Month\<close> and \<open>Day\<close>.
\<close>

lemma load_data_null_fields:
  "length (load_data to_datetime day_name csv) = length csv \<and>
   (\<forall>i < length csv. coerce_datetime to_datetime (csv_Start_Time (csv ! i)) = None \<longrightarrow>
      Start_Time (load_data to_datetime day_name csv ! i) = None \<and>
      Date (load_data to_datetime day_name csv ! i) = None \<and>
      Hour (load_data to_datetime day_name csv ! i) = None \<and>
      Month (load_data to_datetime day_name csv ! i) = None \<and>
      Day (load_data to_datetime day_name csv ! i) = None)"
  by (auto simp add: load_data_def load_row_def Let_def)

text \<open>
  C8 does not hold of the program. On a file in which no timestamp parses, the loader
  keeps both rows, with null \<open>Start_Time\<close>, \<open>Date\<close>, \<open>Hour\<close>, \<open>Month\<close> and
  \<open>Day\<close>, as the claim says; but the filter then raises \<open>TypeError\<close> on line 96,
  where the claim has it leave these rows out and return.
\<close>

theorem unparsable_timestamps_raise:
  "length (load_data example_to_datetime example_day_name unparsable_csv) = length unparsable_csv \<and>
   map Start_Time (load_data example_to_datetime example_day_name unparsable_csv) = [None, None] \<and>
   map Date (load_data example_to_datetime example_day_name unparsable_csv) = [None, None] \<and>
   map Hour (load_data example_to_datetime example_day_name unparsable_csv) = [None, None] \<and>
   map Month (load_data example_to_datetime example_day_name unparsable_csv) = [None, None] \<and>
   map Day (load_data example_to_datetime example_day_name unparsable_csv) = [None, None] \<and>
   run_get_filtered_data (load_data example_to_datetime example_day_name unparsable_csv)
     [] [] [] [] (0, 23) (1, 12) (MkDate 2021 1 1) (MkDate 2021 12 31) = Inl TypeError"
  by (simp add: run_get_filtered_data_def date_column_is_datetime64_def load_data_def load_row_def
      unparsable_csv_def csv_line_def coerce_datetime_def example_to_datetime_def Let_def)

text \<open>
  C10. Whatever the base table and the criteria, every row of the filtered table has
  a date, an hour and a month, since the date mask and the two range masks are false on
  a null cell and are applied without condition. For a table that comes from the
  loader, every filtered row has a parsed timestamp: the rows whose timestamp did not
  parse are in no filtered table, hence in nothing computed from one.
\<close>

theorem filtered_rows_have_time_fields:
  "(\<forall>r \<in> set (get_filtered_data df state severity weather day hour_range month_range
                 start_date end_date).
      Date r \<noteq> None \<and> Hour r \<noteq> None \<and> Month r \<noteq> None) \<and>
   (\<forall>r \<in> set (get_filtered_data (load_data to_datetime day_name csv) state severity weather day
                 hour_range month_range start_date end_date).
      Start_Time r \<noteq> None)"
proof (rule conjI; rule ballI)
  fix r
  assume "r \<in> set (get_filtered_data df state severity weather day hour_range month_range
                      start_date end_date)"
  then show "Date r \<noteq> None \<and> Hour r \<noteq> None \<and> Month r \<noteq> None"
    by (auto simp add: get_filtered_data_filter ge_date_def between_def split: option.splits)
next
  fix r
  assume "r \<in> set (get_filtered_data (load_data to_datetime day_name csv) state severity weather
                      day hour_range month_range start_date end_date)"
  then have "r \<in> set (load_data to_datetime day_name csv)" and "Date r \<noteq> None"
    by (auto simp add: get_filtered_data_filter ge_date_def split: option.splits)
  then show "Start_Time r \<noteq> None"
    by (auto simp add: load_data_def load_row_def Let_def)
qed

theorem filtered_rows_have_time_fields_witness:
  "no_criteria (load_data example_to_datetime example_day_name example_csv) =
     [load_data example_to_datetime example_day_name example_csv ! 0] \<and>
   Date (load_data example_to_datetime example_day_name example_csv ! 0) \<noteq> None \<and>
   Hour (load_data example_to_datetime example_day_name example_csv ! 0) \<noteq> None \<and>
   Month (load_data example_to_datetime example_day_name example_csv ! 0) \<noteq> None \<and>
   Start_Time (load_data example_to_datetime example_day_name example_csv ! 0) \<noteq> None"
proof -
  have v: "no_criteria (load_data example_to_datetime example_day_name example_csv) =
             [load_data example_to_datetime example_day_name example_csv ! 0]"
    by (simp add: load_example_csv no_criteria_def get_filtered_data_def accident_def
        ge_date_def le_date_def between_def)
  then have mem: "load_data example_to_datetime example_day_name example_csv ! 0 \<in>
      set (get_filtered_data (load_data example_to_datetime example_day_name example_csv)
             [] [] [] [] (0, 23) (1, 12) (MkDate 2021 1 1) (MkDate 2021 12 31))"
    by (simp add: no_criteria_def)
  show ?thesis
    using filtered_rows_have_time_fields[of
        "load_data example_to_datetime example_day_name example_csv"
        "[]" "[]" "[]" "[]" "(0, 23)" "(1, 12)" "MkDate 2021 1 1" "MkDate 2021 12 31"
        example_to_datetime example_day_name example_csv] mem v
    by blast
qed

end
